theory Spec2Isabelle
  imports Complex_Main
begin

section \<open>Position estimators of gym-vrep's mobile robot navigation\<close>

text \<open>
  A shallow embedding of \<^verbatim>\<open>gym_vrep/envs/mobile_robot_navigation/navigation.py\<close>.

  Python floats and the entries of numpy float arrays are modelled as \<^typ>\<open>real\<close>:
  arithmetic is exact, so IEEE rounding error, overflow and NaN are outside the model.
  The one place where the source can leave the finite numbers on finite input, the
  division by the body width, is a value of the model (\<open>NonFinite\<close>).
  The robot collaborator is not part of the module: its geometry is a record, and the
  sensor values it hands out during one call are an argument of that call.
\<close>

subsection \<open>The numpy functions the module calls\<close>

text \<open>\<^verbatim>\<open>np.rint\<close>: the nearest integer, a tie going to the even neighbour.\<close>

definition rint :: "real \<Rightarrow> real" where
  "rint x =
     (let f = \<lfloor>x\<rfloor>; d = x - of_int f
      in if d < 1 / 2 then of_int f
         else if 1 / 2 < d then of_int (f + 1)
         else if even f then of_int f else of_int (f + 1))"

text \<open>
  \<^verbatim>\<open>np.round(a, decimals)\<close> for \<open>decimals \<ge> 0\<close>: numpy scales by \<open>10 ^ decimals\<close>,
  applies \<^verbatim>\<open>rint\<close> and scales back.
\<close>

definition np_round :: "real \<Rightarrow> nat \<Rightarrow> real" where
  "np_round a decimals = rint (a * 10 ^ decimals) / 10 ^ decimals"

text \<open>C's \<^verbatim>\<open>fmod\<close>, which \<^verbatim>\<open>np.fmod\<close> calls: the quotient is truncated towards zero.\<close>

definition trunc :: "real \<Rightarrow> int" where
  "trunc x = (if 0 \<le> x then \<lfloor>x\<rfloor> else \<lceil>x\<rceil>)"

definition fmod :: "real \<Rightarrow> real \<Rightarrow> real" where
  "fmod x y = x - of_int (trunc (x / y)) * y"

text \<open>\<^verbatim>\<open>np.arctan2(y, x)\<close>, the angle of the point \<open>(x, y)\<close>; 0 at the origin.\<close>

definition arctan2 :: "real \<Rightarrow> real \<Rightarrow> real" where
  "arctan2 y x =
     (if 0 < x then arctan (y / x)
      else if x < 0 \<and> 0 \<le> y then arctan (y / x) + pi
      else if x < 0 then arctan (y / x) - pi
      else if 0 < y then pi / 2
      else if y < 0 then - (pi / 2)
      else 0)"

text \<open>\<^verbatim>\<open>np.linalg.norm\<close> of a vector of two entries.\<close>

definition linalg_norm :: "real \<times> real \<Rightarrow> real" where
  "linalg_norm v = sqrt ((fst v)\<^sup>2 + (snd v)\<^sup>2)"

subsection \<open>Data\<close>

text \<open>A pose is the array \<open>[x, y, theta]\<close>, a goal the array \<open>[x, y]\<close>.\<close>

type_synonym pose = "real \<times> real \<times> real"
type_synonym goal = "real \<times> real"

text \<open>What the estimators read of the \<^verbatim>\<open>Robot\<close> object: its two geometry attributes.\<close>

record robot =
  wheel_diameter :: real
  body_width :: real

text \<open>The values the robot's sensor methods return during one call of an estimator.\<close>

record readings =
  get_pose :: pose
  get_encoders_rotations :: "real \<times> real"
  get_gyroscope_values :: real

text \<open>
  The attributes of the classes, \<^verbatim>\<open>self._x\<close> written \<open>self_x\<close>. \<^verbatim>\<open>Odometry\<close> extends
  \<^verbatim>\<open>Base\<close> and \<^verbatim>\<open>Gyrodometry\<close> extends \<^verbatim>\<open>Odometry\<close>, as the records do.
\<close>

record base =
  self_robot :: robot
  self_target_position :: "goal option"
  self_wheel_radius :: real
  self_body_width :: real
  self_dt :: real
  self_pose :: pose

record odometry = base +
  self_sum_path :: real

record gyrodometry = odometry +
  self_previous_phi :: real
  self_previous_angular_velocity :: real

text \<open>
  A division by a zero body width does not raise in numpy: it yields an infinity or NaN.
  That is the value \<open>NonFinite\<close> of the rotation \<open>compute_delta_motion\<close> returns.
  A caller that uses such a rotation gets a pose and an output that are NaN throughout,
  and the model stops there; a caller that discards it goes on.
\<close>

datatype float_fault = NonFinite

subsection \<open>Base\<close>

definition Base_init :: "robot \<Rightarrow> real \<Rightarrow> base" where
  "Base_init robot dt =
     \<lparr>self_robot = robot,
      self_target_position = None,
      self_wheel_radius = wheel_diameter robot / 2,
      self_body_width = body_width robot,
      self_dt = dt,
      self_pose = (0, 0, 0)\<rparr>"

text \<open>
  \<^verbatim>\<open>_angle_correction\<close>: \<open>new_angle\<close> is assigned up to three times, and the last
  assignment is the one returned.
\<close>

definition angle_correction :: "real \<Rightarrow> real" where
  "angle_correction angle =
     (let new_angle = None;
          new_angle = (if angle \<ge> 0 then Some (fmod (angle + pi) (2 * pi) - pi) else new_angle);
          new_angle = (if angle < 0 then Some (fmod (angle - pi) (2 * pi) + pi) else new_angle);
          new_angle = np_round angle 3
      in new_angle)"

subsection \<open>Ideal\<close>

definition Ideal_init :: "robot \<Rightarrow> real \<Rightarrow> base" where
  "Ideal_init robot dt = Base_init robot dt"

definition Ideal_compute_position :: "base \<Rightarrow> readings \<Rightarrow> goal \<Rightarrow> base \<times> (real \<times> real)" where
  "Ideal_compute_position self rd goal =
     (let (x, y, th) = get_pose rd;
          position = (np_round x 3, np_round y 3, np_round th 3);
          position = (fst position, fst (snd position), angle_correction (snd (snd position)));
          distance = linalg_norm (fst position - fst goal, fst (snd position) - snd goal);
          theta = arctan2 (snd goal - fst (snd position)) (fst goal - fst position);
          theta = angle_correction theta;
          heading_angle = angle_correction (theta - snd (snd position));
          polar_coordinates = (np_round distance 3, np_round heading_angle 3)
      in (self, polar_coordinates))"

definition Ideal_reset :: "base \<Rightarrow> pose \<Rightarrow> base" where
  "Ideal_reset self start_pose = self\<lparr>self_pose := start_pose\<rparr>"

subsection \<open>Odometry\<close>

definition Odometry_init :: "robot \<Rightarrow> real \<Rightarrow> odometry" where
  "Odometry_init robot dt =
     \<lparr>self_robot = robot,
      self_target_position = None,
      self_wheel_radius = wheel_diameter robot / 2,
      self_body_width = body_width robot,
      self_dt = dt,
      self_pose = (0, 0, 0),
      self_sum_path = 0\<rparr>"

definition compute_delta_motion ::
  "'a odometry_scheme \<Rightarrow> readings \<Rightarrow> 'a odometry_scheme \<times> real \<times> (float_fault + real)" where
  "compute_delta_motion self rd =
     (let wheels_paths = (fst (get_encoders_rotations rd) * self_wheel_radius self,
                          snd (get_encoders_rotations rd) * self_wheel_radius self);
          delta_path = np_round ((fst wheels_paths + snd wheels_paths) / 2) 3;
          self = self\<lparr>self_sum_path := self_sum_path self + delta_path\<rparr>;
          delta_beta =
            (if self_body_width self = 0 then Inl NonFinite
             else Inr ((snd wheels_paths - fst wheels_paths) / self_body_width self));
          delta_beta = map_sum id (\<lambda>delta_beta. np_round delta_beta 3) delta_beta
      in (self, delta_path, delta_beta))"

definition Odometry_compute_position ::
  "odometry \<Rightarrow> readings \<Rightarrow> goal \<Rightarrow> float_fault + (odometry \<times> (real \<times> real))" where
  "Odometry_compute_position self rd goal =
     (case compute_delta_motion self rd of
        (self, delta_path, Inl e) \<Rightarrow> Inl e
      | (self, delta_path, Inr delta_beta) \<Rightarrow>
          (let (x, y, th) = self_pose self;
               p = (x + delta_path * cos (th + delta_beta / 2),
                    y + delta_path * sin (th + delta_beta / 2),
                    th + delta_beta);
               p = (np_round (fst p) 3, np_round (fst (snd p)) 3, np_round (snd (snd p)) 3);
               p = (fst p, fst (snd p), angle_correction (snd (snd p)));
               self = self\<lparr>self_pose := p\<rparr>;
               distance = linalg_norm (fst p - fst goal, fst (snd p) - snd goal);
               theta = arctan2 (snd goal - fst (snd p)) (fst goal - fst p);
               theta = angle_correction theta;
               heading_angle = angle_correction (theta - snd (snd p));
               polar_coordinates = (np_round distance 3, np_round heading_angle 3)
           in Inr (self, polar_coordinates)))"

definition Odometry_reset :: "odometry \<Rightarrow> pose \<Rightarrow> odometry" where
  "Odometry_reset self start_pose = self\<lparr>self_pose := start_pose, self_sum_path := 0\<rparr>"

subsection \<open>Gyrodometry\<close>

definition Gyrodometry_init :: "robot \<Rightarrow> real \<Rightarrow> gyrodometry" where
  "Gyrodometry_init robot dt =
     \<lparr>self_robot = robot,
      self_target_position = None,
      self_wheel_radius = wheel_diameter robot / 2,
      self_body_width = body_width robot,
      self_dt = dt,
      self_pose = (0, 0, 0),
      self_sum_path = 0,
      self_previous_phi = 0,
      self_previous_angular_velocity = 0\<rparr>"

definition compute_rotation :: "gyrodometry \<Rightarrow> readings \<Rightarrow> gyrodometry \<times> real" where
  "compute_rotation self rd =
     (let current_angular_velocity = get_gyroscope_values rd;
          delta_beta = np_round (current_angular_velocity * self_dt self) 3;
          self = self\<lparr>self_previous_angular_velocity := current_angular_velocity\<rparr>
      in (self, delta_beta))"

text \<open>
  \<^verbatim>\<open>Gyrodometry.compute_position\<close> overrides the odometry's method and has its result
  type. It discards the rotation that \<open>compute_delta_motion\<close> returns, finite or not,
  and takes the gyroscope's; so it always returns a pose and an output.
\<close>

definition Gyrodometry_compute_position ::
  "gyrodometry \<Rightarrow> readings \<Rightarrow> goal \<Rightarrow> float_fault + (gyrodometry \<times> (real \<times> real))" where
  "Gyrodometry_compute_position self rd goal =
     (case compute_delta_motion self rd of
        (self, delta_path, _) \<Rightarrow>
          (let (self, delta_beta) = compute_rotation self rd;
               (x, y, th) = self_pose self;
               p = (x + delta_path * cos (th + delta_beta / 2),
                    y + delta_path * sin (th + delta_beta / 2),
                    th + delta_beta);
               p = (np_round (fst p) 3, np_round (fst (snd p)) 3, np_round (snd (snd p)) 3);
               p = (fst p, fst (snd p), angle_correction (snd (snd p)));
               self = self\<lparr>self_pose := p\<rparr>;
               distance = linalg_norm (fst p - fst goal, fst (snd p) - snd goal);
               theta = arctan2 (snd goal - fst (snd p)) (fst goal - fst p);
               theta = angle_correction theta;
               heading_angle = angle_correction (theta - snd (snd p))
           in Inr (self, (np_round distance 3, np_round heading_angle 3))))"

definition Gyrodometry_reset :: "gyrodometry \<Rightarrow> pose \<Rightarrow> gyrodometry" where
  "Gyrodometry_reset self start_pose =
     self\<lparr>self_pose := start_pose, self_sum_path := 0, self_previous_angular_velocity := 0\<rparr>"

subsection \<open>The control loop\<close>

text \<open>
  The caller invokes \<^verbatim>\<open>compute_position\<close> once per tick. A run of the odometry
  estimator over the ticks of an episode, each with the readings of that tick and the
  goal passed in, is the repeated call; it keeps the estimator and drops the outputs.
\<close>

fun Odometry_run :: "odometry \<Rightarrow> (readings \<times> goal) list \<Rightarrow> float_fault + odometry" where
  "Odometry_run self [] = Inr self"
| "Odometry_run self ((rd, goal) # ticks) =
     (case Odometry_compute_position self rd goal of
        Inl e \<Rightarrow> Inl e
      | Inr (self, _) \<Rightarrow> Odometry_run self ticks)"

subsection \<open>Vocabulary of the properties\<close>

text \<open>A value is rounded to three decimals when rounding it again changes nothing.\<close>

definition rounded3 :: "real \<Rightarrow> bool" where
  "rounded3 v \<longleftrightarrow> np_round v 3 = v"

text \<open>
  The pose that both integrating estimators store, and the polar coordinates both
  return, as functions of the old pose, the two deltas and the goal.
\<close>

definition new_pose :: "pose \<Rightarrow> real \<Rightarrow> real \<Rightarrow> pose" where
  "new_pose p delta_path delta_beta =
     (np_round (fst p + delta_path * cos (snd (snd p) + delta_beta / 2)) 3,
      np_round (fst (snd p) + delta_path * sin (snd (snd p) + delta_beta / 2)) 3,
      np_round (np_round (snd (snd p) + delta_beta) 3) 3)"

definition polar_of :: "pose \<Rightarrow> goal \<Rightarrow> real \<times> real" where
  "polar_of p goal =
     (np_round (linalg_norm (fst p - fst goal, fst (snd p) - snd goal)) 3,
      np_round (np_round
        (np_round (arctan2 (snd goal - fst (snd p)) (fst goal - fst p)) 3 - snd (snd p)) 3) 3)"

section \<open>Properties\<close>

subsection \<open>Rounding\<close>

lemma rint_of_int [simp]: "rint (of_int k) = of_int k"
  by (simp add: rint_def)

lemma rint_half_open: "real_of_int k - 1 / 2 < x \<Longrightarrow> x < real_of_int k + 1 / 2 \<Longrightarrow> rint x = of_int k"
proof -
  assume a: "real_of_int k - 1 / 2 < x" "x < real_of_int k + 1 / 2"
  show ?thesis
  proof (cases "of_int k \<le> x")
    case True
    with a have f: "\<lfloor>x\<rfloor> = k" by (intro floor_unique) auto
    show ?thesis using a True by (simp add: rint_def Let_def f)
  next
    case False
    with a have f: "\<lfloor>x\<rfloor> = k - 1" by (intro floor_unique) auto
    show ?thesis using a False by (simp add: rint_def Let_def f)
  qed
qed

lemma rint_0 [simp]: "rint 0 = 0"
  using rint_of_int [of 0] by simp

lemma rint_1 [simp]: "rint 1 = 1"
  using rint_of_int [of 1] by simp

lemma rint_numeral [simp]: "rint (numeral n) = numeral n"
  using rint_of_int [of "numeral n"] by simp

lemma rint_neg_numeral [simp]: "rint (- numeral n) = - numeral n"
  using rint_of_int [of "- numeral n"] by simp

lemma rint_int: "\<exists>k::int. rint x = of_int k"
  unfolding rint_def Let_def by metis

lemma rint_err: "\<bar>rint x - x\<bar> \<le> 1 / 2"
  unfolding rint_def Let_def by (auto; linarith)

lemma np_round3_idem: "np_round (np_round v 3) 3 = np_round v 3"
proof -
  obtain k :: int where k: "rint (v * 10 ^ 3) = of_int k" using rint_int by blast
  show ?thesis unfolding np_round_def k by simp
qed

lemma rounded3_iff: "rounded3 v \<longleftrightarrow> (\<exists>k::int. v = of_int k / 1000)"
proof
  assume "rounded3 v"
  then have v: "v = rint (v * 10 ^ 3) / 10 ^ 3" by (simp add: rounded3_def np_round_def)
  obtain k :: int where k: "rint (v * 10 ^ 3) = of_int k" using rint_int by blast
  from v k show "\<exists>k::int. v = of_int k / 1000" by auto
next
  assume "\<exists>k::int. v = of_int k / 1000"
  then obtain k :: int where "v = of_int k / 1000" by blast
  then show "rounded3 v" by (simp add: rounded3_def np_round_def)
qed

lemma rounded3_np_round: "rounded3 (np_round v 3)"
  by (simp add: rounded3_def np_round3_idem)

lemma rounded3_0: "rounded3 0"
  by (simp add: rounded3_iff)

lemma rounded3_add: "rounded3 a \<Longrightarrow> rounded3 b \<Longrightarrow> rounded3 (a + b)"
proof -
  assume "rounded3 a" "rounded3 b"
  then obtain k l :: int where "a = of_int k / 1000" "b = of_int l / 1000"
    by (auto simp: rounded3_iff)
  then have "a + b = of_int (k + l) / 1000" by (simp add: add_divide_distrib)
  then show ?thesis unfolding rounded3_iff by blast
qed

lemma np_round3_err: "\<bar>np_round v 3 - v\<bar> \<le> 1 / 2000"
proof -
  have "\<bar>rint (v * 1000) - v * 1000\<bar> \<le> 1 / 2" by (rule rint_err)
  then show ?thesis by (simp add: np_round_def field_simps abs_le_iff)
qed

subsection \<open>The estimators in closed form\<close>

lemma compute_delta_motion_ok:
  "self_body_width s \<noteq> 0 \<Longrightarrow>
   compute_delta_motion s rd =
     (s\<lparr>self_sum_path := self_sum_path s +
              np_round ((fst (get_encoders_rotations rd) * self_wheel_radius s +
                         snd (get_encoders_rotations rd) * self_wheel_radius s) / 2) 3\<rparr>,
      np_round ((fst (get_encoders_rotations rd) * self_wheel_radius s +
                 snd (get_encoders_rotations rd) * self_wheel_radius s) / 2) 3,
      Inr (np_round ((snd (get_encoders_rotations rd) * self_wheel_radius s -
                      fst (get_encoders_rotations rd) * self_wheel_radius s) / self_body_width s) 3))"
  by (simp add: compute_delta_motion_def Let_def)

lemma compute_delta_motion_fault:
  "self_body_width s = 0 \<Longrightarrow>
   compute_delta_motion s rd =
     (s\<lparr>self_sum_path := self_sum_path s +
              np_round ((fst (get_encoders_rotations rd) * self_wheel_radius s +
                         snd (get_encoders_rotations rd) * self_wheel_radius s) / 2) 3\<rparr>,
      np_round ((fst (get_encoders_rotations rd) * self_wheel_radius s +
                 snd (get_encoders_rotations rd) * self_wheel_radius s) / 2) 3,
      Inl NonFinite)"
  by (simp add: compute_delta_motion_def Let_def)

lemma Odometry_compute_position_Inr:
  "compute_delta_motion s rd = (s1, dp, Inr db) \<Longrightarrow>
   Odometry_compute_position s rd goal =
     Inr (s1\<lparr>self_pose := new_pose (self_pose s1) dp db\<rparr>,
          polar_of (new_pose (self_pose s1) dp db) goal)"
  by (simp add: Odometry_compute_position_def Let_def new_pose_def polar_of_def
      angle_correction_def split: prod.splits)

lemma Odometry_compute_position_fault:
  "self_body_width s = 0 \<Longrightarrow> Odometry_compute_position s rd goal = Inl NonFinite"
  by (simp add: Odometry_compute_position_def compute_delta_motion_fault)

lemma Gyrodometry_compute_position_Inr:
  "compute_delta_motion s rd = (s1, dp, r) \<Longrightarrow>
   Gyrodometry_compute_position s rd goal =
     Inr (s1\<lparr>self_previous_angular_velocity := get_gyroscope_values rd,
             self_pose := new_pose (self_pose s1) dp (np_round (get_gyroscope_values rd * self_dt s1) 3)\<rparr>,
          polar_of (new_pose (self_pose s1) dp (np_round (get_gyroscope_values rd * self_dt s1) 3)) goal)"
  by (simp add: Gyrodometry_compute_position_def compute_rotation_def Let_def new_pose_def polar_of_def
      angle_correction_def split: prod.splits)

lemma Ideal_compute_position_eq:
  "Ideal_compute_position s rd goal =
     (s, polar_of (np_round (fst (get_pose rd)) 3, np_round (fst (snd (get_pose rd))) 3,
                   np_round (np_round (snd (snd (get_pose rd))) 3) 3) goal)"
  by (simp add: Ideal_compute_position_def Let_def polar_of_def angle_correction_def split: prod.splits)

subsection \<open>Further rounding facts\<close>

lemma new_pose_simps:
  "fst (new_pose p dp db) = np_round (fst p + dp * cos (snd (snd p) + db / 2)) 3"
  "fst (snd (new_pose p dp db)) = np_round (fst (snd p) + dp * sin (snd (snd p) + db / 2)) 3"
  "snd (snd (new_pose p dp db)) = np_round (snd (snd p) + db) 3"
  by (simp_all add: new_pose_def np_round3_idem)

lemma np_round_0 [simp]: "np_round 0 d = 0"
  by (simp add: np_round_def)

lemma rounded3_D: "rounded3 v \<Longrightarrow> np_round v 3 = v"
  by (simp add: rounded3_def)

lemma norm_example: "np_round (linalg_norm (- (1 / 2500), - (1 / 2500))) 3 = 1 / 1000"
proof -
  define n where "n = linalg_norm (- (1 / 2500), - (1 / 2500)) * 1000"
  have nn: "0 \<le> n" by (simp add: n_def linalg_norm_def)
  have sq: "n\<^sup>2 = 8 / 25"
    by (simp add: n_def linalg_norm_def power_mult_distrib) (simp add: power2_eq_square)
  have "(1 / 2)\<^sup>2 < n\<^sup>2" unfolding sq by (simp add: power2_eq_square)
  then have lo: "1 / 2 < n" using nn by (rule power2_less_imp_less)
  have "n\<^sup>2 < (3 / 2)\<^sup>2" unfolding sq by (simp add: power2_eq_square)
  then have hi: "n < 3 / 2" by (rule power2_less_imp_less) simp
  have "rint n = of_int 1"
    by (rule rint_half_open) (use lo hi in simp_all)
  then show ?thesis by (simp add: np_round_def n_def)
qed

subsection \<open>Straight runs\<close>

lemma np_round_add_rounded3: "rounded3 a \<Longrightarrow> np_round (a + np_round v 3) 3 = a + np_round v 3"
  by (rule rounded3_D) (simp add: rounded3_add rounded3_np_round)

lemma Odometry_run_straight:
  "self_pose s = (x, 0, 0) \<Longrightarrow> rounded3 x \<Longrightarrow> self_body_width s \<noteq> 0 \<Longrightarrow>
   \<forall>(rd, g) \<in> set ticks. get_encoders_rotations rd = (\<Delta>, \<Delta>) \<Longrightarrow>
   \<exists>s'. Odometry_run s ticks = Inr s' \<and>
     self_pose s' = (x + real (length ticks) * np_round (\<Delta> * self_wheel_radius s) 3, 0, 0)"
proof (induction ticks arbitrary: s x)
  case Nil
  then show ?case by simp
next
  case (Cons t ticks)
  obtain rd g where t: "t = (rd, g)" by (cases t)
  define d where "d = np_round (\<Delta> * self_wheel_radius s) 3"
  define s1 where "s1 = s\<lparr>self_sum_path := self_sum_path s + d, self_pose := (x + d, 0, 0)\<rparr>"
  from Cons.prems t have enc: "get_encoders_rotations rd = (\<Delta>, \<Delta>)" by simp
  have np: "new_pose (x, 0, 0) d 0 = (x + d, 0, 0)"
    using Cons.prems(2) by (simp add: new_pose_def d_def np_round_add_rounded3)
  have step: "Odometry_compute_position s rd g = Inr (s1, polar_of (x + d, 0, 0) g)"
    using Cons.prems(1,3) enc
    by (simp add: Odometry_compute_position_Inr [OF compute_delta_motion_ok] np s1_def
        flip: d_def)
  have r: "rounded3 (x + d)" using Cons.prems(2) by (simp add: rounded3_add d_def rounded3_np_round)
  have "\<exists>s'. Odometry_run s1 ticks = Inr s' \<and>
      self_pose s' = (x + d + real (length ticks) * np_round (\<Delta> * self_wheel_radius s1) 3, 0, 0)"
    using Cons.prems by (intro Cons.IH r) (simp_all add: s1_def)
  then obtain s' where s': "Odometry_run s1 ticks = Inr s'"
    "self_pose s' = (x + d + real (length ticks) * np_round (\<Delta> * self_wheel_radius s1) 3, 0, 0)"
    by blast
  have w: "self_wheel_radius s1 = self_wheel_radius s" by (simp add: s1_def)
  have "Odometry_run s (t # ticks) = Inr s'" by (simp add: t step s')
  moreover have "self_pose s' = (x + real (length (t # ticks)) * d, 0, 0)"
    by (simp add: s'(2) w algebra_simps flip: d_def)
  ultimately show ?case unfolding d_def by blast
qed

section \<open>The claims\<close>

text \<open>
  C1: \<^verbatim>\<open>_angle_correction\<close> returns its argument rounded to three decimals; the wrap
  candidate it computes on the way has no part in the result.
\<close>

theorem angle_correction_rounds_only:
  "angle_correction angle = np_round angle 3"
  by (simp add: angle_correction_def Let_def)

text \<open>
  C5: the worked example. Wheel radius 0.02 (a wheel diameter of 0.04), body width 0.1,
  start pose \<open>(0, 0, 0)\<close>, goal \<open>(1, 0)\<close>, one tick with encoder deltas
  \<open>(50, 50)\<close>: \<open>compute_delta_motion\<close> returns 1 and 0, the pose becomes
  \<open>(1, 0, 0)\<close> and the polar coordinates returned are \<open>(0, 0)\<close>, whatever the
  tick duration and the sensors the odometry does not read.
\<close>

theorem odometry_concrete_example:
  "compute_delta_motion (Odometry_reset (Odometry_init \<lparr>wheel_diameter = 0.04, body_width = 0.1\<rparr> dt) (0, 0, 0))
      \<lparr>get_pose = gp, get_encoders_rotations = (50, 50), get_gyroscope_values = w\<rparr>
    = ((Odometry_init \<lparr>wheel_diameter = 0.04, body_width = 0.1\<rparr> dt)\<lparr>self_sum_path := 1\<rparr>, 1, Inr 0)
  \<and> Odometry_compute_position (Odometry_reset (Odometry_init \<lparr>wheel_diameter = 0.04, body_width = 0.1\<rparr> dt) (0, 0, 0))
      \<lparr>get_pose = gp, get_encoders_rotations = (50, 50), get_gyroscope_values = w\<rparr> (1, 0)
    = Inr ((Odometry_init \<lparr>wheel_diameter = 0.04, body_width = 0.1\<rparr> dt)\<lparr>self_pose := (1, 0, 0), self_sum_path := 1\<rparr>, (0, 0))"
  by (simp add: Odometry_compute_position_def compute_delta_motion_def Odometry_reset_def Odometry_init_def
      Let_def np_round_def angle_correction_def linalg_norm_def arctan2_def)

text \<open>
  C2 (evaluation at the failing input): the heading is not kept in \<open>(-\<pi>, \<pi>]\<close>. From
  the pose \<open>(0, 0, 0)\<close>, one tick with encoder deltas \<open>(-10, 10)\<close> turns the robot
  on the spot by 4 radians; the stored heading is 4, which is beyond \<open>\<pi>\<close>, and the
  heading error returned is \<open>-4\<close>.
\<close>

theorem odometry_heading_leaves_range:
  "Odometry_compute_position
     (Odometry_reset (Odometry_init \<lparr>wheel_diameter = 0.04, body_width = 0.1\<rparr> 0.05) (0, 0, 0))
     \<lparr>get_pose = (0, 0, 0), get_encoders_rotations = (- 10, 10), get_gyroscope_values = 0\<rparr> (1, 0)
   = Inr ((Odometry_init \<lparr>wheel_diameter = 0.04, body_width = 0.1\<rparr> 0.05)\<lparr>self_pose := (0, 0, 4)\<rparr>,
          (1, - 4))
   \<and> \<not> 4 \<le> pi"
  using pi_less_4
  by (simp add: Odometry_compute_position_def compute_delta_motion_def Odometry_reset_def Odometry_init_def
      Let_def np_round_def angle_correction_def linalg_norm_def arctan2_def)

text \<open>
  C10: \<open>Ideal.compute_position\<close> leaves the estimator as it found it, the stored pose
  included; the stored pose is what the last \<open>reset\<close> wrote.
\<close>

theorem Ideal_compute_position_frame:
  "fst (Ideal_compute_position self rd goal) = self \<and>
   self_pose (Ideal_reset self start_pose) = start_pose"
  by (simp add: Ideal_compute_position_eq Ideal_reset_def)

text \<open>
  C4, as stated, fails: a robot whose body width is 0 is accepted by the constructor, and
  the estimator it returns holds that 0; the fault shows only when
  \<open>compute_delta_motion\<close> divides, after it has updated \<open>_sum_path\<close>, and it makes
  the odometry's \<open>compute_position\<close> leave the finite numbers.
\<close>

theorem body_width_zero_accepted:
  "self_body_width (Odometry_init \<lparr>wheel_diameter = 0.04, body_width = 0\<rparr> 0.05) = 0 \<and>
   compute_delta_motion (Odometry_init \<lparr>wheel_diameter = 0.04, body_width = 0\<rparr> 0.05)
     \<lparr>get_pose = (0, 0, 0), get_encoders_rotations = (50, 50), get_gyroscope_values = 0\<rparr>
   = ((Odometry_init \<lparr>wheel_diameter = 0.04, body_width = 0\<rparr> 0.05)\<lparr>self_sum_path := 1\<rparr>,
      1, Inl NonFinite) \<and>
   Odometry_compute_position (Odometry_init \<lparr>wheel_diameter = 0.04, body_width = 0\<rparr> 0.05)
     \<lparr>get_pose = (0, 0, 0), get_encoders_rotations = (50, 50), get_gyroscope_values = 0\<rparr> (1, 0)
   = Inl NonFinite"
  by (simp add: Odometry_init_def Odometry_compute_position_def compute_delta_motion_def Let_def
      np_round_def)

text \<open>
  C4, amended: the constructors validate nothing. Each stores the robot's body width as
  it is. When it is 0, the rotation that \<open>compute_delta_motion\<close> returns is not finite
  on any call, and so neither is the result of the odometry's \<open>compute_position\<close>. The
  gyrodometry's \<open>compute_position\<close> discards that rotation: it returns a pose and an
  output whatever the body width.
\<close>

theorem body_width_unchecked:
  "self_body_width (Ideal_init robot dt) = body_width robot \<and>
   self_body_width (Odometry_init robot dt) = body_width robot \<and>
   self_body_width (Gyrodometry_init robot dt) = body_width robot \<and>
   (body_width robot = 0 \<longrightarrow>
      snd (snd (compute_delta_motion (Odometry_init robot dt) rd)) = Inl NonFinite \<and>
      snd (snd (compute_delta_motion (Gyrodometry_init robot dt) rd)) = Inl NonFinite \<and>
      Odometry_compute_position (Odometry_init robot dt) rd goal = Inl NonFinite) \<and>
   Gyrodometry_compute_position (Gyrodometry_init robot dt) rd goal \<noteq> Inl NonFinite"
proof -
  obtain s1 dp r where "compute_delta_motion (Gyrodometry_init robot dt) rd = (s1, dp, r)"
    by (cases "compute_delta_motion (Gyrodometry_init robot dt) rd")
  then have g: "Gyrodometry_compute_position (Gyrodometry_init robot dt) rd goal \<noteq> Inl NonFinite"
    by (simp add: Gyrodometry_compute_position_Inr)
  have o: "body_width robot = 0 \<longrightarrow>
      snd (snd (compute_delta_motion (Odometry_init robot dt) rd)) = Inl NonFinite \<and>
      snd (snd (compute_delta_motion (Gyrodometry_init robot dt) rd)) = Inl NonFinite \<and>
      Odometry_compute_position (Odometry_init robot dt) rd goal = Inl NonFinite"
    by (simp add: Odometry_compute_position_fault compute_delta_motion_fault
        Odometry_init_def Gyrodometry_init_def)
  show ?thesis
    using g o by (simp add: Ideal_init_def Base_init_def Odometry_init_def Gyrodometry_init_def)
qed

theorem body_width_unchecked_witness:
  "self_body_width (Odometry_init \<lparr>wheel_diameter = 0.04, body_width = 0\<rparr> 0.05) = 0 \<and>
   snd (snd (compute_delta_motion (Odometry_init \<lparr>wheel_diameter = 0.04, body_width = 0\<rparr> 0.05)
     \<lparr>get_pose = (0, 0, 0), get_encoders_rotations = (50, 50), get_gyroscope_values = 0\<rparr>))
   = Inl NonFinite \<and>
   Odometry_compute_position (Odometry_init \<lparr>wheel_diameter = 0.04, body_width = 0\<rparr> 0.05)
     \<lparr>get_pose = (0, 0, 0), get_encoders_rotations = (50, 50), get_gyroscope_values = 0\<rparr> (1, 0)
   = Inl NonFinite \<and>
   Gyrodometry_compute_position (Gyrodometry_init \<lparr>wheel_diameter = 0.04, body_width = 0\<rparr> 0.05)
     \<lparr>get_pose = (0, 0, 0), get_encoders_rotations = (50, 50), get_gyroscope_values = 0\<rparr> (1, 0)
   \<noteq> Inl NonFinite"
  using body_width_unchecked [of "\<lparr>wheel_diameter = 0.04, body_width = 0\<rparr>" "0.05"
      "\<lparr>get_pose = (0, 0, 0), get_encoders_rotations = (50, 50), get_gyroscope_values = 0\<rparr>" "(1, 0)"]
  by simp

text \<open>
  C7, as stated, fails: \<open>reset\<close> stores the start pose unrounded and
  \<open>compute_position\<close> rounds it, so the distance to the unrounded goal need not be 0.
  Start pose and goal \<open>(0.0004, 0.0004)\<close>, no motion: the distance returned is 0.001.
\<close>

theorem reset_distance_nonzero:
  "map_sum id (fst \<circ> snd)
     (Odometry_compute_position
        (Odometry_reset (Odometry_init \<lparr>wheel_diameter = 0.04, body_width = 0.1\<rparr> 0.05) (0.0004, 0.0004, 0))
        \<lparr>get_pose = (0.0004, 0.0004, 0), get_encoders_rotations = (0, 0), get_gyroscope_values = 0\<rparr>
        (0.0004, 0.0004))
   = Inr 0.001"
proof -
  have r: "np_round (1 / 2500) 3 = 0" by (simp add: np_round_def rint_def)
  show ?thesis
    by (simp add: Odometry_compute_position_Inr [OF compute_delta_motion_ok] polar_of_def
        new_pose_def Odometry_reset_def Odometry_init_def r norm_example)
qed

text \<open>
  C7, amended: with a body width other than 0, after \<open>reset (x, y, th)\<close> a call of
  \<open>compute_position (x, y)\<close> with encoder deltas and gyroscope reading 0 returns the
  rounded distance between the rounded and the given position; that is 0 when \<open>x\<close> and
  \<open>y\<close> are already rounded to three decimals.
\<close>

theorem reset_distance:
  assumes "self_body_width so \<noteq> 0" and "self_body_width sg \<noteq> 0"
    and "get_encoders_rotations rd = (0, 0)" and "get_gyroscope_values rd = 0"
  shows "map_sum id (fst \<circ> snd) (Odometry_compute_position (Odometry_reset so (x, y, th)) rd (x, y))
           = Inr (np_round (linalg_norm (np_round x 3 - x, np_round y 3 - y)) 3) \<and>
         map_sum id (fst \<circ> snd) (Gyrodometry_compute_position (Gyrodometry_reset sg (x, y, th)) rd (x, y))
           = Inr (np_round (linalg_norm (np_round x 3 - x, np_round y 3 - y)) 3) \<and>
         (rounded3 x \<and> rounded3 y \<longrightarrow>
            map_sum id (fst \<circ> snd) (Odometry_compute_position (Odometry_reset so (x, y, th)) rd (x, y))
              = Inr 0 \<and>
            map_sum id (fst \<circ> snd) (Gyrodometry_compute_position (Gyrodometry_reset sg (x, y, th)) rd (x, y))
              = Inr 0)"
proof -
  have o: "map_sum id (fst \<circ> snd) (Odometry_compute_position (Odometry_reset so (x, y, th)) rd (x, y))
           = Inr (np_round (linalg_norm (np_round x 3 - x, np_round y 3 - y)) 3)"
    using assms
    by (simp add: Odometry_compute_position_Inr [OF compute_delta_motion_ok] polar_of_def
        new_pose_def Odometry_reset_def)
  have g: "map_sum id (fst \<circ> snd) (Gyrodometry_compute_position (Gyrodometry_reset sg (x, y, th)) rd (x, y))
           = Inr (np_round (linalg_norm (np_round x 3 - x, np_round y 3 - y)) 3)"
    using assms
    by (simp add: Gyrodometry_compute_position_Inr [OF compute_delta_motion_ok] polar_of_def
        new_pose_def Gyrodometry_reset_def)
  have z: "rounded3 x \<and> rounded3 y \<Longrightarrow>
      np_round (linalg_norm (np_round x 3 - x, np_round y 3 - y)) 3 = 0"
    by (simp add: rounded3_D linalg_norm_def)
  from o g z show ?thesis by simp
qed

theorem reset_distance_witness:
  "map_sum id (fst \<circ> snd)
     (Odometry_compute_position
        (Odometry_reset (Odometry_init \<lparr>wheel_diameter = 0.04, body_width = 0.1\<rparr> 0.05) (0.25, 1, 0))
        \<lparr>get_pose = (0, 0, 0), get_encoders_rotations = (0, 0), get_gyroscope_values = 0\<rparr> (0.25, 1))
     = Inr 0 \<and>
   map_sum id (fst \<circ> snd)
     (Gyrodometry_compute_position
        (Gyrodometry_reset (Gyrodometry_init \<lparr>wheel_diameter = 0.04, body_width = 0.1\<rparr> 0.05) (0.25, 1, 0))
        \<lparr>get_pose = (0, 0, 0), get_encoders_rotations = (0, 0), get_gyroscope_values = 0\<rparr> (0.25, 1))
     = Inr 0"
proof -
  have b: "self_body_width (Odometry_init \<lparr>wheel_diameter = 0.04, body_width = 0.1\<rparr> 0.05) \<noteq> 0"
    "self_body_width (Gyrodometry_init \<lparr>wheel_diameter = 0.04, body_width = 0.1\<rparr> 0.05) \<noteq> 0"
    by (simp_all add: Odometry_init_def Gyrodometry_init_def)
  show ?thesis
    using reset_distance [OF b, of "\<lparr>get_pose = (0, 0, 0), get_encoders_rotations = (0, 0), get_gyroscope_values = 0\<rparr>"
        "0.25" 1 0]
    by (simp add: rounded3_def np_round_def linalg_norm_def)
qed

text \<open>
  C9: the outputs are functions of what the estimators read. \<open>Ideal.compute_position\<close>
  returns the same polar coordinates whenever the ground-truth pose and the goal are the
  same, whatever the estimator's attributes, the encoders and the gyroscope, and so also
  on two calls in a row. The odometry's stored pose and output are determined by its
  pose, wheel radius and body width, the encoder deltas and the goal; the gyrodometry's
  by these, the tick duration and the gyroscope reading.
\<close>

theorem outputs_determined_by_inputs:
  "(get_pose ri2 = get_pose ri1 \<longrightarrow>
      snd (Ideal_compute_position i2 ri2 goal) = snd (Ideal_compute_position i1 ri1 goal) \<and>
      snd (Ideal_compute_position (fst (Ideal_compute_position i1 ri1 goal)) ri2 goal)
        = snd (Ideal_compute_position i1 ri1 goal)) \<and>
   (self_pose o2 = self_pose o1 \<and> self_wheel_radius o2 = self_wheel_radius o1 \<and>
    self_body_width o2 = self_body_width o1 \<and>
    get_encoders_rotations ro2 = get_encoders_rotations ro1 \<longrightarrow>
      map_sum id (\<lambda>(s, out). (self_pose s, out)) (Odometry_compute_position o2 ro2 goal)
        = map_sum id (\<lambda>(s, out). (self_pose s, out)) (Odometry_compute_position o1 ro1 goal)) \<and>
   (self_pose g2 = self_pose g1 \<and> self_wheel_radius g2 = self_wheel_radius g1 \<and>
    self_body_width g2 = self_body_width g1 \<and> self_dt g2 = self_dt g1 \<and>
    get_encoders_rotations rg2 = get_encoders_rotations rg1 \<and>
    get_gyroscope_values rg2 = get_gyroscope_values rg1 \<longrightarrow>
      map_sum id (\<lambda>(s, out). (self_pose s, out)) (Gyrodometry_compute_position g2 rg2 goal)
        = map_sum id (\<lambda>(s, out). (self_pose s, out)) (Gyrodometry_compute_position g1 rg1 goal))"
proof (intro conjI impI)
  assume "get_pose ri2 = get_pose ri1"
  then show "snd (Ideal_compute_position i2 ri2 goal) = snd (Ideal_compute_position i1 ri1 goal)"
    by (simp add: Ideal_compute_position_eq)
next
  assume "get_pose ri2 = get_pose ri1"
  then show "snd (Ideal_compute_position (fst (Ideal_compute_position i1 ri1 goal)) ri2 goal)
        = snd (Ideal_compute_position i1 ri1 goal)"
    by (simp add: Ideal_compute_position_eq)
next
  assume a: "self_pose o2 = self_pose o1 \<and> self_wheel_radius o2 = self_wheel_radius o1 \<and>
    self_body_width o2 = self_body_width o1 \<and>
    get_encoders_rotations ro2 = get_encoders_rotations ro1"
  show "map_sum id (\<lambda>(s, out). (self_pose s, out)) (Odometry_compute_position o2 ro2 goal)
        = map_sum id (\<lambda>(s, out). (self_pose s, out)) (Odometry_compute_position o1 ro1 goal)"
  proof (cases "self_body_width o1 = 0")
    case True
    with a show ?thesis
      by (simp add: Odometry_compute_position_fault)
  next
    case False
    with a have "self_body_width o2 \<noteq> 0" by simp
    with False a show ?thesis
      by (simp add: Odometry_compute_position_Inr [OF compute_delta_motion_ok])
  qed
next
  assume a: "self_pose g2 = self_pose g1 \<and> self_wheel_radius g2 = self_wheel_radius g1 \<and>
    self_body_width g2 = self_body_width g1 \<and> self_dt g2 = self_dt g1 \<and>
    get_encoders_rotations rg2 = get_encoders_rotations rg1 \<and>
    get_gyroscope_values rg2 = get_gyroscope_values rg1"
  show "map_sum id (\<lambda>(s, out). (self_pose s, out)) (Gyrodometry_compute_position g2 rg2 goal)
        = map_sum id (\<lambda>(s, out). (self_pose s, out)) (Gyrodometry_compute_position g1 rg1 goal)"
  proof (cases "self_body_width g1 = 0")
    case True
    with a show ?thesis
      by (simp add: Gyrodometry_compute_position_Inr [OF compute_delta_motion_fault])
  next
    case False
    with a have "self_body_width g2 \<noteq> 0" by simp
    with False a show ?thesis
      by (simp add: Gyrodometry_compute_position_Inr [OF compute_delta_motion_ok])
  qed
qed

theorem outputs_determined_by_inputs_witness:
  "snd (Ideal_compute_position
          (Ideal_reset (Ideal_init \<lparr>wheel_diameter = 0.04, body_width = 0.1\<rparr> 0.05) (7, 7, 7))
          \<lparr>get_pose = (1, 0, 0), get_encoders_rotations = (3, 4), get_gyroscope_values = 5\<rparr> (1, 0))
     = snd (Ideal_compute_position (Ideal_init \<lparr>wheel_diameter = 0.04, body_width = 0.1\<rparr> 0.05)
          \<lparr>get_pose = (1, 0, 0), get_encoders_rotations = (0, 0), get_gyroscope_values = 0\<rparr> (1, 0)) \<and>
   map_sum id (\<lambda>(s, out). (self_pose s, out))
     (Odometry_compute_position (Odometry_init \<lparr>wheel_diameter = 0.04, body_width = 0.1\<rparr> 0.1)
        \<lparr>get_pose = (9, 9, 9), get_encoders_rotations = (50, 50), get_gyroscope_values = 5\<rparr> (1, 0))
     = map_sum id (\<lambda>(s, out). (self_pose s, out))
     (Odometry_compute_position (Odometry_init \<lparr>wheel_diameter = 0.04, body_width = 0.1\<rparr> 0.05)
        \<lparr>get_pose = (0, 0, 0), get_encoders_rotations = (50, 50), get_gyroscope_values = 0\<rparr> (1, 0)) \<and>
   map_sum id (\<lambda>(s, out). (self_pose s, out))
     (Gyrodometry_compute_position
        ((Gyrodometry_init \<lparr>wheel_diameter = 0.04, body_width = 0.1\<rparr> 0.05)\<lparr>self_sum_path := 3\<rparr>)
        \<lparr>get_pose = (9, 9, 9), get_encoders_rotations = (50, 50), get_gyroscope_values = 2\<rparr> (1, 0))
     = map_sum id (\<lambda>(s, out). (self_pose s, out))
     (Gyrodometry_compute_position (Gyrodometry_init \<lparr>wheel_diameter = 0.04, body_width = 0.1\<rparr> 0.05)
        \<lparr>get_pose = (0, 0, 0), get_encoders_rotations = (50, 50), get_gyroscope_values = 2\<rparr> (1, 0))"
  using outputs_determined_by_inputs [where
      ?i2.0 = "Ideal_reset (Ideal_init \<lparr>wheel_diameter = 0.04, body_width = 0.1\<rparr> 0.05) (7, 7, 7)"
      and ?ri2.0 = "\<lparr>get_pose = (1, 0, 0), get_encoders_rotations = (3, 4), get_gyroscope_values = 5\<rparr>"
      and ?i1.0 = "Ideal_init \<lparr>wheel_diameter = 0.04, body_width = 0.1\<rparr> 0.05"
      and ?ri1.0 = "\<lparr>get_pose = (1, 0, 0), get_encoders_rotations = (0, 0), get_gyroscope_values = 0\<rparr>"
      and goal = "(1, 0)"
      and ?o2.0 = "Odometry_init \<lparr>wheel_diameter = 0.04, body_width = 0.1\<rparr> 0.1"
      and ?ro2.0 = "\<lparr>get_pose = (9, 9, 9), get_encoders_rotations = (50, 50), get_gyroscope_values = 5\<rparr>"
      and ?o1.0 = "Odometry_init \<lparr>wheel_diameter = 0.04, body_width = 0.1\<rparr> 0.05"
      and ?ro1.0 = "\<lparr>get_pose = (0, 0, 0), get_encoders_rotations = (50, 50), get_gyroscope_values = 0\<rparr>"
      and ?g2.0 = "(Gyrodometry_init \<lparr>wheel_diameter = 0.04, body_width = 0.1\<rparr> 0.05)\<lparr>self_sum_path := 3\<rparr>"
      and ?rg2.0 = "\<lparr>get_pose = (9, 9, 9), get_encoders_rotations = (50, 50), get_gyroscope_values = 2\<rparr>"
      and ?g1.0 = "Gyrodometry_init \<lparr>wheel_diameter = 0.04, body_width = 0.1\<rparr> 0.05"
      and ?rg1.0 = "\<lparr>get_pose = (0, 0, 0), get_encoders_rotations = (50, 50), get_gyroscope_values = 2\<rparr>"]
  by (simp add: Odometry_init_def Gyrodometry_init_def)

text \<open>
  C6, as stated, fails: \<open>compute_position\<close> rounds the stored pose, so the odometry's
  heading does not stay what \<open>reset\<close> stored. Start heading 0.0004, encoder deltas
  \<open>(50, 50)\<close>: the odometry's heading after the tick is 0.
\<close>

theorem odometry_heading_rounded_away:
  "map_sum id (snd \<circ> snd \<circ> self_pose \<circ> fst)
     (Odometry_compute_position
        (Odometry_reset (Odometry_init \<lparr>wheel_diameter = 0.04, body_width = 0.1\<rparr> 0.05) (0, 0, 0.0004))
        \<lparr>get_pose = (0, 0, 0.0004), get_encoders_rotations = (50, 50), get_gyroscope_values = 1\<rparr> (1, 0))
     = Inr 0 \<and>
   snd (snd (self_pose
        (Odometry_reset (Odometry_init \<lparr>wheel_diameter = 0.04, body_width = 0.1\<rparr> 0.05) (0, 0, 0.0004))))
     = 0.0004"
proof -
  have r: "np_round (1 / 2500) 3 = 0" by (simp add: np_round_def rint_def)
  show ?thesis
    by (simp add: Odometry_compute_position_Inr [OF compute_delta_motion_ok] new_pose_simps
        Odometry_reset_def Odometry_init_def r)
qed

text \<open>
  C6, amended: with body widths other than 0 and both estimators at the same pose, one
  tick with equal encoder deltas leaves the odometry's heading at the rounded start
  heading and the gyrodometry's at the rounded sum of the start heading and
  \<open>round (\<omega> * dt, 3)\<close>. When the start heading is already rounded to three decimals,
  the odometry's heading is unchanged, the gyrodometry's changes by exactly
  \<open>round (\<omega> * dt, 3)\<close>, and the two differ whenever that is not 0.
\<close>

theorem equal_encoders_headings:
  assumes "self_pose so = (x, y, th)" and "self_pose sg = (x, y, th)"
    and "self_body_width so \<noteq> 0" and "self_body_width sg \<noteq> 0"
    and "get_encoders_rotations rd = (\<Delta>, \<Delta>)"
  shows "map_sum id (snd \<circ> snd \<circ> self_pose \<circ> fst) (Odometry_compute_position so rd goal)
           = Inr (np_round th 3) \<and>
         map_sum id (snd \<circ> snd \<circ> self_pose \<circ> fst) (Gyrodometry_compute_position sg rd goal)
           = Inr (np_round (th + np_round (get_gyroscope_values rd * self_dt sg) 3) 3) \<and>
         (rounded3 th \<longrightarrow>
            map_sum id (snd \<circ> snd \<circ> self_pose \<circ> fst) (Odometry_compute_position so rd goal)
              = Inr th \<and>
            map_sum id (snd \<circ> snd \<circ> self_pose \<circ> fst) (Gyrodometry_compute_position sg rd goal)
              = Inr (th + np_round (get_gyroscope_values rd * self_dt sg) 3) \<and>
            (np_round (get_gyroscope_values rd * self_dt sg) 3 \<noteq> 0 \<longrightarrow>
               map_sum id (snd \<circ> snd \<circ> self_pose \<circ> fst) (Odometry_compute_position so rd goal)
               \<noteq> map_sum id (snd \<circ> snd \<circ> self_pose \<circ> fst) (Gyrodometry_compute_position sg rd goal)))"
proof -
  have o: "map_sum id (snd \<circ> snd \<circ> self_pose \<circ> fst) (Odometry_compute_position so rd goal)
           = Inr (np_round th 3)"
    using assms
    by (simp add: Odometry_compute_position_Inr [OF compute_delta_motion_ok] new_pose_simps)
  have g: "map_sum id (snd \<circ> snd \<circ> self_pose \<circ> fst) (Gyrodometry_compute_position sg rd goal)
           = Inr (np_round (th + np_round (get_gyroscope_values rd * self_dt sg) 3) 3)"
    using assms
    by (simp add: Gyrodometry_compute_position_Inr [OF compute_delta_motion_ok] new_pose_simps)
  show ?thesis unfolding o g
    by (simp add: np_round_add_rounded3 rounded3_D)
qed

theorem equal_encoders_headings_witness:
  "map_sum id (snd \<circ> snd \<circ> self_pose \<circ> fst)
     (Odometry_compute_position (Odometry_init \<lparr>wheel_diameter = 0.04, body_width = 0.1\<rparr> 0.05)
        \<lparr>get_pose = (0, 0, 0), get_encoders_rotations = (50, 50), get_gyroscope_values = 2\<rparr> (1, 0))
     = Inr 0 \<and>
   map_sum id (snd \<circ> snd \<circ> self_pose \<circ> fst)
     (Gyrodometry_compute_position (Gyrodometry_init \<lparr>wheel_diameter = 0.04, body_width = 0.1\<rparr> 0.05)
        \<lparr>get_pose = (0, 0, 0), get_encoders_rotations = (50, 50), get_gyroscope_values = 2\<rparr> (1, 0))
     = Inr 0.1"
proof -
  have p: "self_pose (Odometry_init \<lparr>wheel_diameter = 0.04, body_width = 0.1\<rparr> 0.05) = (0, 0, 0)"
    "self_pose (Gyrodometry_init \<lparr>wheel_diameter = 0.04, body_width = 0.1\<rparr> 0.05) = (0, 0, 0)"
    by (simp_all add: Odometry_init_def Gyrodometry_init_def)
  have b: "self_body_width (Odometry_init \<lparr>wheel_diameter = 0.04, body_width = 0.1\<rparr> 0.05) \<noteq> 0"
    "self_body_width (Gyrodometry_init \<lparr>wheel_diameter = 0.04, body_width = 0.1\<rparr> 0.05) \<noteq> 0"
    by (simp_all add: Odometry_init_def Gyrodometry_init_def)
  have e: "get_encoders_rotations
      \<lparr>get_pose = (0, 0, 0), get_encoders_rotations = (50, 50), get_gyroscope_values = 2\<rparr> = (50, 50)"
    by simp
  show ?thesis
    using equal_encoders_headings [OF p b e, of "(1, 0)"]
    by (simp add: rounded3_0 np_round_def Gyrodometry_init_def)
qed

text \<open>
  C8, as stated, fails: each tick adds the rounded path delta, so the error grows with the
  number of ticks. Wheel radius 0.02 and encoder deltas \<open>(0.02, 0.02)\<close>: every path
  delta 0.0004 rounds to 0, and after three ticks \<open>x\<close> is 0 while
  \<open>N * \<Delta> * wheelRadius\<close> is 0.0012.
\<close>

theorem straight_line_drift:
  "map_sum id self_pose
     (Odometry_run (Odometry_reset (Odometry_init \<lparr>wheel_diameter = 0.04, body_width = 0.1\<rparr> 0.05) (0, 0, 0))
        [(\<lparr>get_pose = (0, 0, 0), get_encoders_rotations = (0.02, 0.02), get_gyroscope_values = 0\<rparr>, (1, 0)),
         (\<lparr>get_pose = (0, 0, 0), get_encoders_rotations = (0.02, 0.02), get_gyroscope_values = 0\<rparr>, (1, 0)),
         (\<lparr>get_pose = (0, 0, 0), get_encoders_rotations = (0.02, 0.02), get_gyroscope_values = 0\<rparr>, (1, 0))])
     = Inr (0, 0, 0) \<and>
   \<not> \<bar>0 - 3 * 0.02 * (0.04 / 2)\<bar> \<le> (0.001 :: real)"
proof -
  have r: "np_round (1 / 2500) 3 = 0" by (simp add: np_round_def rint_def)
  show ?thesis
    by (simp add: Odometry_compute_position_Inr [OF compute_delta_motion_ok] new_pose_def
        Odometry_reset_def Odometry_init_def r)
qed

text \<open>
  C8, amended: from the pose \<open>(0, 0, 0)\<close>, with a body width other than 0, after each
  of the first \<open>n\<close> ticks of a run whose encoder deltas are all \<open>(\<Delta>, \<Delta>)\<close> the pose is
  \<open>(n * round (\<Delta> * wheelRadius, 3), 0, 0)\<close>: the heading stays 0, and \<open>x\<close> is within
  \<open>n * 0.0005\<close> of \<open>n * \<Delta> * wheelRadius\<close>.
\<close>

theorem straight_line_run:
  assumes "self_pose s = (0, 0, 0)" and "self_body_width s \<noteq> 0"
    and "\<forall>(rd, g) \<in> set ticks. get_encoders_rotations rd = (\<Delta>, \<Delta>)"
    and "n \<le> length ticks"
  shows "map_sum id self_pose (Odometry_run s (take n ticks))
           = Inr (real n * np_round (\<Delta> * self_wheel_radius s) 3, 0, 0) \<and>
         \<bar>real n * np_round (\<Delta> * self_wheel_radius s) 3 - real n * \<Delta> * self_wheel_radius s\<bar>
           \<le> real n * (1 / 2000)"
proof
  have "\<forall>(rd, g) \<in> set (take n ticks). get_encoders_rotations rd = (\<Delta>, \<Delta>)"
    using assms(3) by (meson in_set_takeD)
  from Odometry_run_straight [OF assms(1) rounded3_0 assms(2) this] assms(4)
  show "map_sum id self_pose (Odometry_run s (take n ticks))
           = Inr (real n * np_round (\<Delta> * self_wheel_radius s) 3, 0, 0)"
    by auto
next
  have "\<bar>real n * np_round (\<Delta> * self_wheel_radius s) 3 - real n * \<Delta> * self_wheel_radius s\<bar>
      = real n * \<bar>np_round (\<Delta> * self_wheel_radius s) 3 - \<Delta> * self_wheel_radius s\<bar>"
  proof -
    have "real n * np_round (\<Delta> * self_wheel_radius s) 3 - real n * \<Delta> * self_wheel_radius s
        = real n * (np_round (\<Delta> * self_wheel_radius s) 3 - \<Delta> * self_wheel_radius s)"
      by (simp add: algebra_simps)
    then show ?thesis by (simp only: abs_mult abs_of_nat)
  qed
  also have "\<dots> \<le> real n * (1 / 2000)"
    by (intro mult_left_mono np_round3_err) simp
  finally show "\<bar>real n * np_round (\<Delta> * self_wheel_radius s) 3 - real n * \<Delta> * self_wheel_radius s\<bar>
           \<le> real n * (1 / 2000)" .
qed

theorem straight_line_run_witness:
  "map_sum id self_pose
     (Odometry_run (Odometry_init \<lparr>wheel_diameter = 0.04, body_width = 0.1\<rparr> 0.05)
        [(\<lparr>get_pose = (0, 0, 0), get_encoders_rotations = (50, 50), get_gyroscope_values = 0\<rparr>, (1, 0)),
         (\<lparr>get_pose = (0, 0, 0), get_encoders_rotations = (50, 50), get_gyroscope_values = 0\<rparr>, (1, 0))])
     = Inr (2, 0, 0)"
  using straight_line_run [of "Odometry_init \<lparr>wheel_diameter = 0.04, body_width = 0.1\<rparr> 0.05"
      "[(\<lparr>get_pose = (0, 0, 0), get_encoders_rotations = (50, 50), get_gyroscope_values = 0\<rparr>, (1, 0)),
        (\<lparr>get_pose = (0, 0, 0), get_encoders_rotations = (50, 50), get_gyroscope_values = 0\<rparr>, (1, 0))]"
      50 2]
  by (simp add: Odometry_init_def np_round_def)

text \<open>
  C3, as stated, fails: \<open>reset\<close> stores the start pose as it is given, and the
  gyrodometry stores the gyroscope reading as it is read. Start pose \<open>(0.0004, 0, 0)\<close>:
  the stored pose is not the rounded one; gyroscope reading 0.0004: the value stored in
  \<open>_previous_angular_velocity\<close> is 0.0004, which is not rounded to three decimals.
\<close>

theorem reset_stores_unrounded:
  "self_pose (Odometry_reset (Odometry_init \<lparr>wheel_diameter = 0.04, body_width = 0.1\<rparr> 0.05) (0.0004, 0, 0))
     \<noteq> (np_round 0.0004 3, np_round 0 3, np_round 0 3) \<and>
   map_sum id (self_previous_angular_velocity \<circ> fst)
     (Gyrodometry_compute_position (Gyrodometry_init \<lparr>wheel_diameter = 0.04, body_width = 0.1\<rparr> 0.05)
        \<lparr>get_pose = (0, 0, 0), get_encoders_rotations = (50, 50), get_gyroscope_values = 0.0004\<rparr> (1, 0))
     = Inr 0.0004 \<and>
   \<not> rounded3 0.0004"
proof -
  have r: "np_round (1 / 2500) 3 = 0" by (simp add: np_round_def rint_def)
  show ?thesis
    by (simp add: Gyrodometry_compute_position_Inr [OF compute_delta_motion_ok]
        Odometry_reset_def Odometry_init_def Gyrodometry_init_def rounded3_def r)
qed

text \<open>
  C3, amended: \<open>reset\<close> stores the start pose unchanged. Rounded to three decimals
  are both values every \<open>compute_position\<close> returns, every entry of the pose that the
  odometry's and the gyrodometry's \<open>compute_position\<close> store, and both values
  \<open>compute_delta_motion\<close> returns, the first of which it adds to \<open>_sum_path\<close>. The
  gyrodometry stores the gyroscope reading unrounded.
\<close>

theorem rounding_of_stored_and_returned:
  "self_pose (Ideal_reset i p) = p \<and>
   self_pose (Odometry_reset s p) = p \<and>
   self_pose (Gyrodometry_reset g p) = p \<and>
   rounded3 (fst (snd (Ideal_compute_position i rd goal))) \<and>
   rounded3 (snd (snd (Ideal_compute_position i rd goal))) \<and>
   (compute_delta_motion s rd = (s1, dp, Inr db) \<longrightarrow>
      rounded3 dp \<and> rounded3 db \<and> self_sum_path s1 = self_sum_path s + dp) \<and>
   (Odometry_compute_position s rd goal = Inr (s', out) \<longrightarrow>
      rounded3 (fst out) \<and> rounded3 (snd out) \<and>
      rounded3 (fst (self_pose s')) \<and> rounded3 (fst (snd (self_pose s'))) \<and>
      rounded3 (snd (snd (self_pose s')))) \<and>
   (Gyrodometry_compute_position g rd goal = Inr (g', gout) \<longrightarrow>
      rounded3 (fst gout) \<and> rounded3 (snd gout) \<and>
      rounded3 (fst (self_pose g')) \<and> rounded3 (fst (snd (self_pose g'))) \<and>
      rounded3 (snd (snd (self_pose g'))) \<and>
      self_previous_angular_velocity g' = get_gyroscope_values rd)"
proof (intro conjI impI)
  show "self_pose (Ideal_reset i p) = p" by (simp add: Ideal_reset_def)
  show "self_pose (Odometry_reset s p) = p" by (simp add: Odometry_reset_def)
  show "self_pose (Gyrodometry_reset g p) = p" by (simp add: Gyrodometry_reset_def)
  show "rounded3 (fst (snd (Ideal_compute_position i rd goal)))"
    by (simp add: Ideal_compute_position_eq polar_of_def rounded3_np_round)
  show "rounded3 (snd (snd (Ideal_compute_position i rd goal)))"
    by (simp add: Ideal_compute_position_eq polar_of_def rounded3_np_round)
next
  assume a: "compute_delta_motion s rd = (s1, dp, Inr db)"
  then have b: "self_body_width s \<noteq> 0"
    by (auto simp: compute_delta_motion_fault)
  from a show "rounded3 dp" "rounded3 db" "self_sum_path s1 = self_sum_path s + dp"
    unfolding compute_delta_motion_ok [OF b] by (auto simp: rounded3_np_round)
next
  assume a: "Odometry_compute_position s rd goal = Inr (s', out)"
  have b: "self_body_width s \<noteq> 0"
    using a by (auto simp: Odometry_compute_position_fault)
  from a show "rounded3 (fst out)" "rounded3 (snd out)"
    "rounded3 (fst (self_pose s'))" "rounded3 (fst (snd (self_pose s')))"
    "rounded3 (snd (snd (self_pose s')))"
    unfolding Odometry_compute_position_Inr [OF compute_delta_motion_ok [OF b]]
    by (auto simp: polar_of_def new_pose_def rounded3_np_round)
next
  assume a: "Gyrodometry_compute_position g rd goal = Inr (g', gout)"
  obtain g1 dp' r where b: "compute_delta_motion g rd = (g1, dp', r)"
    by (cases "compute_delta_motion g rd")
  from a show "rounded3 (fst gout)" "rounded3 (snd gout)"
    "rounded3 (fst (self_pose g'))" "rounded3 (fst (snd (self_pose g')))"
    "rounded3 (snd (snd (self_pose g')))"
    "self_previous_angular_velocity g' = get_gyroscope_values rd"
    unfolding Gyrodometry_compute_position_Inr [OF b]
    by (auto simp: polar_of_def new_pose_def rounded3_np_round)
qed

theorem rounding_of_stored_and_returned_witness:
  "self_pose (Odometry_reset (Odometry_init \<lparr>wheel_diameter = 0.04, body_width = 0.1\<rparr> 0.05) (0.0004, 0, 0))
     = (0.0004, 0, 0) \<and>
   rounded3 (fst (snd (Ideal_compute_position (Ideal_init \<lparr>wheel_diameter = 0.04, body_width = 0.1\<rparr> 0.05)
     \<lparr>get_pose = (0, 0, 0), get_encoders_rotations = (50, 50), get_gyroscope_values = 0.0004\<rparr> (1, 0)))) \<and>
   rounded3 1 \<and> rounded3 0 \<and>
   self_sum_path ((Odometry_init \<lparr>wheel_diameter = 0.04, body_width = 0.1\<rparr> 0.05)\<lparr>self_sum_path := 1\<rparr>)
     = self_sum_path (Odometry_init \<lparr>wheel_diameter = 0.04, body_width = 0.1\<rparr> 0.05) + 1 \<and>
   self_previous_angular_velocity
     ((Gyrodometry_init \<lparr>wheel_diameter = 0.04, body_width = 0.1\<rparr> 0.05)
        \<lparr>self_pose := (1, 0, 0), self_sum_path := 1, self_previous_angular_velocity := 0.0004\<rparr>)
     = 0.0004"
proof -
  let ?R = "\<lparr>wheel_diameter = 0.04, body_width = 0.1\<rparr>"
  let ?rd = "\<lparr>get_pose = (0, 0, 0), get_encoders_rotations = (50, 50), get_gyroscope_values = 0.0004\<rparr>"
  have r: "np_round (1 / 50000) 3 = 0" by (simp add: np_round_def rint_def)
  have d: "compute_delta_motion (Odometry_init ?R 0.05) ?rd
      = ((Odometry_init ?R 0.05)\<lparr>self_sum_path := 1\<rparr>, 1, Inr 0)"
    by (simp add: compute_delta_motion_def Odometry_init_def Let_def np_round_def)
  have o: "Odometry_compute_position (Odometry_init ?R 0.05) ?rd (1, 0)
      = Inr ((Odometry_init ?R 0.05)\<lparr>self_pose := (1, 0, 0), self_sum_path := 1\<rparr>, (0, 0))"
    by (simp add: Odometry_compute_position_def compute_delta_motion_def Odometry_init_def
        Let_def np_round_def angle_correction_def linalg_norm_def arctan2_def)
  have g: "Gyrodometry_compute_position (Gyrodometry_init ?R 0.05) ?rd (1, 0)
      = Inr ((Gyrodometry_init ?R 0.05)
          \<lparr>self_pose := (1, 0, 0), self_sum_path := 1, self_previous_angular_velocity := 0.0004\<rparr>, (0, 0))"
    using r
    by (simp add: Gyrodometry_compute_position_def compute_delta_motion_def compute_rotation_def
        Gyrodometry_init_def Let_def angle_correction_def linalg_norm_def arctan2_def)
      (simp add: np_round_def)
  show ?thesis
    using rounding_of_stored_and_returned [where i = "Ideal_init ?R 0.05" and p = "(0.0004, 0, 0)"
        and s = "Odometry_init ?R 0.05" and g = "Gyrodometry_init ?R 0.05" and rd = ?rd
        and goal = "(1, 0)" and ?s1.0 = "(Odometry_init ?R 0.05)\<lparr>self_sum_path := 1\<rparr>"
        and dp = 1 and db = 0
        and s' = "(Odometry_init ?R 0.05)\<lparr>self_pose := (1, 0, 0), self_sum_path := 1\<rparr>"
        and out = "(0, 0)"
        and g' = "(Gyrodometry_init ?R 0.05)
          \<lparr>self_pose := (1, 0, 0), self_sum_path := 1, self_previous_angular_velocity := 0.0004\<rparr>"
        and gout = "(0, 0)"]
    unfolding d o g by simp
qed

end
